theory Spec2Isabelle
  imports Main
begin

section \<open>Python values, exceptions and the observable world\<close>

text \<open>
  The module \<^verbatim>\<open>gemini_api_integrate_in_project.py\<close> wraps the \<^verbatim>\<open>google.generativeai\<close>
  library. Its behaviour is decided by three things: the truthiness of the credential, the
  order of its calls into the library, and the two \<^verbatim>\<open>try\<close>/\<^verbatim>\<open>except\<close> blocks that
  translate exceptions. The embedding keeps all three.

  An exception value carries its class, the text \<^verbatim>\<open>str(e)\<close> and the \<^verbatim>\<open>__cause__\<close> set by
  \<^verbatim>\<open>raise ... from e\<close>. The classes are the ones the source's \<^verbatim>\<open>except\<close> clauses
  tell apart: \<^verbatim>\<open>ValueError\<close>, the module's own \<^verbatim>\<open>GeminiAPIError\<close>, the library's
  \<^verbatim>\<open>GoogleAPIError\<close> (each standing for the class and its subclasses), any other subclass of
  \<^verbatim>\<open>Exception\<close> (named), and the classes that derive from \<^verbatim>\<open>BaseException\<close> without
  deriving from \<^verbatim>\<open>Exception\<close> (\<^verbatim>\<open>KeyboardInterrupt\<close>, \<^verbatim>\<open>GeneratorExit\<close>), which
  an \<^verbatim>\<open>except Exception\<close> clause does not catch.

  The specification names three error kinds. In the module they are: the \<^verbatim>\<open>ValueError\<close>
  of the credential check (\<^verbatim>\<open>InvalidCredential\<close>), the \<^verbatim>\<open>GeminiAPIError\<close> whose
  message starts with \<^verbatim>\<open>Failed to initialize model: \<close> (\<^verbatim>\<open>ModelInitializationError\<close>),
  and the \<^verbatim>\<open>GeminiAPIError\<close> whose message starts with \<^verbatim>\<open>Gemini API error: \<close> or
  \<^verbatim>\<open>Unexpected error during content generation: \<close> (\<^verbatim>\<open>ContentGenerationError\<close>).
\<close>

datatype exc_class =
    ValueError
  | GeminiAPIError
  | GoogleAPIError
  | OtherException string
  | BaseExceptionOnly string

datatype py_exc = PyExc (exc_cls: exc_class) (exc_str: string) (exc_cause: "py_exc option")

definition is_GoogleAPIError :: "py_exc \<Rightarrow> bool" where
  "is_GoogleAPIError e = (exc_cls e = GoogleAPIError)"

definition is_GeminiAPIError :: "py_exc \<Rightarrow> bool" where
  "is_GeminiAPIError e = (exc_cls e = GeminiAPIError)"

definition is_ValueError :: "py_exc \<Rightarrow> bool" where
  "is_ValueError e = (exc_cls e = ValueError)"

definition is_Exception :: "py_exc \<Rightarrow> bool" where
  "is_Exception e = (case exc_cls e of BaseExceptionOnly _ \<Rightarrow> False | _ \<Rightarrow> True)"

text \<open>\<^verbatim>\<open>raise C(msg) from e\<close>: a new exception of class \<open>C\<close> whose cause is \<open>e\<close>.\<close>

definition raise_from :: "exc_class \<Rightarrow> string \<Rightarrow> py_exc \<Rightarrow> py_exc" where
  "raise_from c m e = PyExc c m (Some e)"

text \<open>
  A value of type \<^verbatim>\<open>Optional[str]\<close>: \<open>None\<close> is Python's \<^verbatim>\<open>None\<close>. Both \<^verbatim>\<open>None\<close> and the
  empty string are falsy.
\<close>

fun truthy :: "string option \<Rightarrow> bool" where
  "truthy None = False"
| "truthy (Some s) = (s \<noteq> [])"

fun py_str :: "string option \<Rightarrow> string" where
  "py_str None = ''None''"
| "py_str (Some s) = s"

text \<open>
  Generation and safety options are dictionaries handed to the library untouched. A
  float literal of the source is kept as written: \<open>PyFloat m e\<close> is \<open>m * 10 ^ e\<close>.
\<close>

datatype py_value = PyInt int | PyFloat int int | PyStr string

type_synonym py_dict = "(string \<times> py_value) list"

text \<open>
  The world outside the facade: the process environment \<^verbatim>\<open>os.environ\<close>, and the sequence
  of effects performed so far (assignments to the environment, calls into the library, lines
  printed), in program order. Lines printed are those of standard output; a traceback on
  standard error is not recorded.
\<close>

datatype event =
    EnvSet string string
  | Configure string
  | NewModel string
  | ModelGenerate string "py_dict option" "py_dict option"
  | RaiseForStatus
  | ReadText
  | Print string

record world =
  environ :: "string \<rightharpoonup> string"
  trace :: "event list"

definition emit :: "event \<Rightarrow> world \<Rightarrow> world" where
  "emit ev w = w\<lparr>trace := trace w @ [ev]\<rparr>"

text \<open>
  The assignment \<^verbatim>\<open>os.environ[name] = val\<close>. It hands both strings to \<^verbatim>\<open>putenv\<close>, which
  raises \<^verbatim>\<open>ValueError\<close> for a NUL character in either of them, and for a name that is empty
  or holds an equals sign; in each of these cases the environment stays as it was. A
  \<open>string\<close> is a sequence of bytes, so every other string is one the environment accepts.
\<close>

definition setenv :: "string \<Rightarrow> string \<Rightarrow> world \<Rightarrow> py_exc + world" where
  "setenv name val w =
     (if CHR 0x00 \<in> set name \<or> CHR 0x00 \<in> set val
      then Inl (PyExc ValueError ''embedded null byte'' None)
      else if name = [] \<or> CHR ''='' \<in> set name
      then Inl (PyExc ValueError ''illegal environment variable name'' None)
      else Inr (emit (EnvSet name val) (w\<lparr>environ := (environ w)(name \<mapsto> val)\<rparr>)))"

section \<open>The delegated library\<close>

text \<open>
  The library is not part of the module; it is a parameter. Each entry point either returns
  or raises: \<^verbatim>\<open>genai.configure(api_key=k)\<close>, the constructor \<^verbatim>\<open>genai.GenerativeModel(name)\<close>
  giving a model handle \<open>'m\<close>, the method \<^verbatim>\<open>model.generate_content(prompt, generation_config,
  safety_settings)\<close> giving a response \<open>'r\<close>, and on a response the method
  \<^verbatim>\<open>raise_for_status()\<close> and the attribute \<^verbatim>\<open>text\<close>. A response is an immutable value:
  reading \<^verbatim>\<open>text\<close> twice gives the same outcome.
\<close>

record ('m, 'r) genai =
  genai_configure :: "string \<Rightarrow> py_exc option"
  genai_GenerativeModel :: "string \<Rightarrow> py_exc + 'm"
  model_generate_content :: "'m \<Rightarrow> string \<Rightarrow> py_dict option \<Rightarrow> py_dict option \<Rightarrow> py_exc + 'r"
  response_raise_for_status :: "'r \<Rightarrow> py_exc option"
  response_text :: "'r \<Rightarrow> py_exc + string option"

section \<open>The client\<close>

record 'm GeminiAPIClient =
  api_key :: string
  model :: 'm

text \<open>
  \<^verbatim>\<open>GeminiAPIClient.__init__\<close>. The credential check comes first and raises
  \<^verbatim>\<open>ValueError\<close>. Then the environment variable \<^verbatim>\<open>GOOGLE_API_KEY\<close> is assigned and the
  library configured, both outside any \<^verbatim>\<open>try\<close>: an exception of either leaves the
  constructor as it is. Only the construction of the model is guarded, by
  \<^verbatim>\<open>except Exception\<close>.
\<close>

definition init ::
  "('m, 'r) genai \<Rightarrow> string option \<Rightarrow> string \<Rightarrow> world \<Rightarrow> (py_exc + 'm GeminiAPIClient) \<times> world" where
  "init lib key model_name w =
     (case key of
        None \<Rightarrow> (Inl (PyExc ValueError ''API key cannot be empty or None.'' None), w)
      | Some k \<Rightarrow>
          if k = [] then (Inl (PyExc ValueError ''API key cannot be empty or None.'' None), w)
          else
            (case setenv ''GOOGLE_API_KEY'' k w of
               Inl e \<Rightarrow> (Inl e, w)
             | Inr w1 \<Rightarrow>
                 let w2 = emit (Configure k) w1
                 in (case genai_configure lib k of
                       Some e \<Rightarrow> (Inl e, w2)
                     | None \<Rightarrow>
                         let w3 = emit (NewModel model_name) w2
                         in (case genai_GenerativeModel lib model_name of
                               Inl e \<Rightarrow>
                                 if is_Exception e
                                 then (Inl (raise_from GeminiAPIError
                                              (''Failed to initialize model: '' @ exc_str e) e), w3)
                                 else (Inl e, w3)
                             | Inr m \<Rightarrow> (Inr \<lparr>api_key = k, model = m\<rparr>, w3)))))"

definition default_model_name :: string where
  "default_model_name = ''gemini-1.5-pro-latest''"

text \<open>
  The body of the \<^verbatim>\<open>try\<close> block of \<^verbatim>\<open>generate_content\<close>: the call, the status check, then
  the text, which is read once for the test and once more for the \<^verbatim>\<open>return\<close>.
\<close>

definition read_text :: "('m, 'r) genai \<Rightarrow> 'r \<Rightarrow> world \<Rightarrow> (py_exc + string option) \<times> world" where
  "read_text lib response w = (response_text lib response, emit ReadText w)"

definition generate_content_try ::
  "('m, 'r) genai \<Rightarrow> 'm GeminiAPIClient \<Rightarrow> string \<Rightarrow> py_dict option \<Rightarrow> py_dict option \<Rightarrow> world
     \<Rightarrow> (py_exc + string option) \<times> world" where
  "generate_content_try lib self prompt generation_config safety_settings w =
     (let w1 = emit (ModelGenerate prompt generation_config safety_settings) w
      in case model_generate_content lib (model self) prompt generation_config safety_settings of
           Inl e \<Rightarrow> (Inl e, w1)
         | Inr response \<Rightarrow>
             let w2 = emit RaiseForStatus w1
             in (case response_raise_for_status lib response of
                   Some e \<Rightarrow> (Inl e, w2)
                 | None \<Rightarrow>
                     (case read_text lib response w2 of
                        (Inl e, w3) \<Rightarrow> (Inl e, w3)
                      | (Inr t, w3) \<Rightarrow>
                          if truthy t then read_text lib response w3
                          else (Inr (Some ''No content generated.''), w3))))"

text \<open>
  The two \<^verbatim>\<open>except\<close> clauses of \<^verbatim>\<open>generate_content\<close>, in the source's order. An
  exception outside the \<^verbatim>\<open>Exception\<close> hierarchy matches neither and propagates.
\<close>

definition generate_content_except :: "py_exc \<Rightarrow> py_exc" where
  "generate_content_except e =
     (if is_GoogleAPIError e
      then raise_from GeminiAPIError (''Gemini API error: '' @ exc_str e) e
      else if is_Exception e
      then raise_from GeminiAPIError (''Unexpected error during content generation: '' @ exc_str e) e
      else e)"

text \<open>
  \<^verbatim>\<open>GeminiAPIClient.generate_content\<close>: the result or the exception raised, the object
  \<^verbatim>\<open>self\<close> after the call, and the world after the call.
\<close>

definition generate_content ::
  "('m, 'r) genai \<Rightarrow> 'm GeminiAPIClient \<Rightarrow> string \<Rightarrow> py_dict option \<Rightarrow> py_dict option \<Rightarrow> world
     \<Rightarrow> (py_exc + string option) \<times> 'm GeminiAPIClient \<times> world" where
  "generate_content lib self prompt generation_config safety_settings w =
     (case generate_content_try lib self prompt generation_config safety_settings w of
        (Inr v, w') \<Rightarrow> (Inr v, self, w')
      | (Inl e, w') \<Rightarrow> (Inl (generate_content_except e), self, w'))"

section \<open>The command-line demonstration\<close>

definition missing_key_message :: string where
  "missing_key_message =
     ''Error: Gemini API key not found in environment variable '' @ [CHR 0x27] @
     ''GEMINI_API_KEY'' @ [CHR 0x27] @
     ''. Please set the environment variable and try again.''"

definition demo_generation_config :: py_dict where
  "demo_generation_config =
     [(''temperature'', PyFloat 9 (-1)), (''top_p'', PyInt 1), (''top_k'', PyInt 1),
      (''max_output_tokens'', PyInt 200)]"

text \<open>The body of the \<^verbatim>\<open>try\<close> block of \<^verbatim>\<open>main\<close>; \<open>Some e\<close> is an exception leaving it.\<close>

definition main_try :: "('m, 'r) genai \<Rightarrow> string option \<Rightarrow> world \<Rightarrow> py_exc option \<times> world" where
  "main_try lib key w =
     (case init lib key default_model_name w of
        (Inl e, w1) \<Rightarrow> (Some e, w1)
      | (Inr client, w1) \<Rightarrow>
          let prompt = ''Write a short poem about a cat.'';
              w2 = emit (Print (''Prompt: '' @ prompt)) w1
          in (case generate_content lib client prompt None None w2 of
                (Inl e, client1, w3) \<Rightarrow> (Some e, w3)
              | (Inr response, client1, w3) \<Rightarrow>
                  let w4 = emit (Print (''Response: '' @ py_str response)) w3;
                      w5 = emit (Print (CHR 0x0A # ''Example with Generation Configuration:'')) w4
                  in (case generate_content lib client1
                             ''Summarize the plot of Hamlet in 5 sentences.''
                             (Some demo_generation_config) None w5 of
                        (Inl e, client2, w6) \<Rightarrow> (Some e, w6)
                      | (Inr response2, client2, w6) \<Rightarrow>
                          (None, emit (Print (''Response: '' @ py_str response2)) w6))))"

text \<open>The three \<^verbatim>\<open>except\<close> clauses of \<^verbatim>\<open>main\<close>, in the source's order.\<close>

definition main_except :: "py_exc \<Rightarrow> world \<Rightarrow> py_exc option \<times> world" where
  "main_except e w =
     (if is_GeminiAPIError e then (None, emit (Print (''Error: '' @ exc_str e)) w)
      else if is_ValueError e then (None, emit (Print (''Error: '' @ exc_str e)) w)
      else if is_Exception e
      then (None, emit (Print (''An unexpected error occurred: '' @ exc_str e)) w)
      else (Some e, w))"

text \<open>\<^verbatim>\<open>main\<close>: \<open>None\<close> when it returns, \<open>Some e\<close> when \<open>e\<close> leaves it uncaught.\<close>

definition main :: "('m, 'r) genai \<Rightarrow> world \<Rightarrow> py_exc option \<times> world" where
  "main lib w =
     (let key = environ w ''GEMINI_API_KEY''
      in if \<not> truthy key then (None, emit (Print missing_key_message) w)
         else (case main_try lib key w of
                 (None, w') \<Rightarrow> (None, w')
               | (Some e, w') \<Rightarrow> main_except e w'))"

text \<open>
  Running the file. After the last statement, \<^verbatim>\<open>main()\<close> under
  \<^verbatim>\<open>if __name__ == "__main__":\<close> at line 140, the file goes on: line 141 is a Markdown
  fence of three backquotes at statement level, followed by prose. The backquote is no
  character of Python's grammar, and the interpreter compiles a file whole before it
  executes any of it: the run ends with \<^verbatim>\<open>SyntaxError\<close> before a single statement, so
  before \<^verbatim>\<open>main\<close>, has run. A file without such a line would run \<^verbatim>\<open>main\<close>.
\<close>

datatype script_outcome = SyntaxErrorAt nat | Ran "py_exc option"

definition line_141 :: string where
  "line_141 = [CHR 0x60, CHR 0x60, CHR 0x60]"

definition run_script :: "('m, 'r) genai \<Rightarrow> world \<Rightarrow> script_outcome \<times> world" where
  "run_script lib w =
     (if CHR 0x60 \<in> set line_141 then (SyntaxErrorAt 141, w)
      else (case main lib w of (outcome, w') \<Rightarrow> (Ran outcome, w')))"

text \<open>
  The exit status of the process: 1 after a \<^verbatim>\<open>SyntaxError\<close>, 0 when \<^verbatim>\<open>main\<close> has
  returned (the module never calls \<^verbatim>\<open>sys.exit\<close>). When an exception leaves \<^verbatim>\<open>main\<close> the
  status depends on the exception (\<^verbatim>\<open>SystemExit\<close> carries its own) and is left open.
\<close>

definition exit_status :: "script_outcome \<Rightarrow> nat option" where
  "exit_status out =
     (case out of
        SyntaxErrorAt n \<Rightarrow> Some 1
      | Ran None \<Rightarrow> Some 0
      | Ran (Some e) \<Rightarrow> None)"

section \<open>Stub collaborators\<close>

text \<open>
  A deterministic stub of the library: the model handle is the model's name, a response is
  the text it carries, and the prompt selects the behaviour.
\<close>

definition quota_error :: py_exc where
  "quota_error = PyExc GoogleAPIError ''quota exceeded'' None"

definition attribute_error :: py_exc where
  "attribute_error = PyExc (OtherException ''AttributeError'') ''no attribute'' None"

definition keyboard_interrupt :: py_exc where
  "keyboard_interrupt = PyExc (BaseExceptionOnly ''KeyboardInterrupt'') [] None"

definition stub_genai :: "(string, string option) genai" where
  "stub_genai =
     \<lparr> genai_configure = (\<lambda>k. None),
       genai_GenerativeModel = (\<lambda>n. Inr n),
       model_generate_content =
         (\<lambda>m p g s. if p = ''quota'' then Inl quota_error
                     else if p = ''crash'' then Inl attribute_error
                     else if p = ''interrupt'' then Inl keyboard_interrupt
                     else if p = ''empty'' then Inr (Some [])
                     else if p = ''absent'' then Inr None
                     else Inr (Some (''echo '' @ p))),
       response_raise_for_status = (\<lambda>r. None),
       response_text = (\<lambda>r. Inr r) \<rparr>"

definition stub_client :: "string GeminiAPIClient" where
  "stub_client = \<lparr>api_key = ''k'', model = ''m''\<rparr>"

definition empty_world :: world where
  "empty_world = \<lparr>environ = Map.empty, trace = []\<rparr>"




definition bad_status_genai :: "(string, string option) genai" where
  "bad_status_genai = stub_genai\<lparr>response_raise_for_status := (\<lambda>r. Some quota_error)\<rparr>"


text \<open>
  The library the module imports. A response of \<^verbatim>\<open>google.generativeai\<close> (a
  \<^verbatim>\<open>GenerateContentResponse\<close>) has the attribute \<^verbatim>\<open>text\<close> but no method
  \<^verbatim>\<open>raise_for_status\<close>, which is a method of the responses of the \<^verbatim>\<open>requests\<close> library:
  the call at line 88 raises \<^verbatim>\<open>AttributeError\<close> on every response.
\<close>

definition no_raise_for_status :: py_exc where
  "no_raise_for_status =
     PyExc (OtherException ''AttributeError'')
       ([CHR 0x27] @ ''GenerateContentResponse'' @ [CHR 0x27] @ '' object has no attribute '' @
        [CHR 0x27] @ ''raise_for_status'' @ [CHR 0x27]) None"

definition generativeai_genai :: "(string, string option) genai" where
  "generativeai_genai =
     stub_genai\<lparr>response_raise_for_status := (\<lambda>r. Some no_raise_for_status)\<rparr>"


text \<open>The effects a call added to the world \<open>w\<close>, read off the world \<open>w'\<close> after it.\<close>

definition new_events :: "world \<Rightarrow> world \<Rightarrow> event list" where
  "new_events w w' = drop (length (trace w)) (trace w')"

section \<open>Basic facts about the embedding\<close>

lemma generate_content_result:
  "fst (generate_content lib self p g s w) =
     (case fst (generate_content_try lib self p g s w) of
        Inr v \<Rightarrow> Inr v | Inl e \<Rightarrow> Inl (generate_content_except e))"
  by (simp add: generate_content_def split: prod.splits sum.splits)

lemma generate_content_self:
  "fst (snd (generate_content lib self p g s w)) = self"
  by (simp add: generate_content_def split: prod.splits sum.splits)

lemma generate_content_world:
  "snd (snd (generate_content lib self p g s w)) = snd (generate_content_try lib self p g s w)"
  by (simp add: generate_content_def split: prod.splits sum.splits)

lemma generate_content_try_raises:
  assumes "model_generate_content lib (model self) p g s = Inl e
     \<or> (\<exists>r. model_generate_content lib (model self) p g s = Inr r
            \<and> (response_raise_for_status lib r = Some e
               \<or> (response_raise_for_status lib r = None \<and> response_text lib r = Inl e)))"
  shows "fst (generate_content_try lib self p g s w) = Inl e"
  using assms
  by (auto simp add: generate_content_try_def read_text_def Let_def)

lemma generate_content_try_environ:
  "environ (snd (generate_content_try lib self p g s w)) = environ w"
  by (simp add: generate_content_try_def read_text_def emit_def Let_def
           split: sum.splits option.splits)

lemma generate_content_try_trace:
  "trace (snd (generate_content_try lib self p g s w)) =
     trace w @ ModelGenerate p g s #
       (case model_generate_content lib (model self) p g s of
          Inl e \<Rightarrow> []
        | Inr r \<Rightarrow> RaiseForStatus #
            (case response_raise_for_status lib r of
               Some e \<Rightarrow> []
             | None \<Rightarrow> ReadText #
                 (case response_text lib r of
                    Inl e \<Rightarrow> []
                  | Inr t \<Rightarrow> if truthy t then [ReadText] else [])))"
  by (simp add: generate_content_try_def read_text_def emit_def Let_def
           split: sum.splits option.splits)

lemma init_nul:
  assumes "k \<noteq> []" and "CHR 0x00 \<in> set k"
  shows "init lib (Some k) name w = (Inl (PyExc ValueError ''embedded null byte'' None), w)"
  using assms by (simp add: init_def setenv_def)


section \<open>Results of a generation call\<close>

text \<open>
  What the \<^verbatim>\<open>try\<close> block does with a response whose \<^verbatim>\<open>raise_for_status\<close> is there and
  returns: a non-empty text is returned as it is, and in place of a text that is
  \<^verbatim>\<open>None\<close> or empty the string \<^verbatim>\<open>No content generated.\<close> is returned.
\<close>

lemma text_returned_when_status_passes:
  assumes "model_generate_content lib (model self) p g s = Inr r"
    and "response_raise_for_status lib r = None"
    and "response_text lib r = Inr (Some t)"
    and "t \<noteq> []"
  shows "fst (generate_content lib self p g s w) = Inr (Some t)"
  using assms
  by (simp add: generate_content_result generate_content_try_def read_text_def Let_def)

lemma sentinel_returned_when_status_passes:
  assumes "model_generate_content lib (model self) p g s = Inr r"
    and "response_raise_for_status lib r = None"
    and "response_text lib r = Inr t"
    and "t = None \<or> t = Some []"
  shows "fst (generate_content lib self p g s w) = Inr (Some ''No content generated.'')"
  using assms
  by (auto simp add: generate_content_result generate_content_try_def read_text_def Let_def)

text \<open>
  C1. The method's documentation promises the generated content, and lines 90 and 91
  return it; line 88 stands in the way. Against the library the module imports, the call
  for the prompt \<^verbatim>\<open>hi\<close> succeeds and its response carries the non-empty text
  \<^verbatim>\<open>echo hi\<close>; \<open>generate_content\<close> does not return that text but raises
  \<^verbatim>\<open>GeminiAPIError\<close>, caused by the \<^verbatim>\<open>AttributeError\<close> of \<^verbatim>\<open>raise_for_status\<close>, and the
  text is never read.
\<close>

theorem successful_call_with_text_raises:
  "model_generate_content generativeai_genai (model stub_client) ''hi'' None None
     = Inr (Some ''echo hi'')
   \<and> response_text generativeai_genai (Some ''echo hi'') = Inr (Some ''echo hi'')
   \<and> fst (generate_content generativeai_genai stub_client ''hi'' None None empty_world)
       = Inl (PyExc GeminiAPIError
                (''Unexpected error during content generation: ''
                   @ exc_str no_raise_for_status)
                (Some no_raise_for_status))
   \<and> fst (generate_content generativeai_genai stub_client ''hi'' None None empty_world)
       \<noteq> Inr (Some ''echo hi'')
   \<and> new_events empty_world
        (snd (snd (generate_content generativeai_genai stub_client ''hi'' None None empty_world)))
       = [ModelGenerate ''hi'' None None, RaiseForStatus]"
  by (simp add: generate_content_result generate_content_world generate_content_try_trace
        generate_content_try_def generate_content_except_def raise_from_def new_events_def
        emit_def generativeai_genai_def stub_genai_def stub_client_def empty_world_def
        no_raise_for_status_def is_GoogleAPIError_def is_Exception_def Let_def)

text \<open>
  C2. The same defect at line 88 defeats the sentinel. Against the library the module
  imports, the call for the prompt \<^verbatim>\<open>empty\<close> succeeds and its response carries the empty
  text; \<open>generate_content\<close> does not return \<^verbatim>\<open>No content generated.\<close> but fails with
  \<^verbatim>\<open>GeminiAPIError\<close>, and the text is never read.
\<close>

theorem successful_call_without_text_raises:
  "model_generate_content generativeai_genai (model stub_client) ''empty'' None None
     = Inr (Some [])
   \<and> response_text generativeai_genai (Some []) = Inr (Some [])
   \<and> fst (generate_content generativeai_genai stub_client ''empty'' None None empty_world)
       = Inl (PyExc GeminiAPIError
                (''Unexpected error during content generation: ''
                   @ exc_str no_raise_for_status)
                (Some no_raise_for_status))
   \<and> fst (generate_content generativeai_genai stub_client ''empty'' None None empty_world)
       \<noteq> Inr (Some ''No content generated.'')
   \<and> new_events empty_world
        (snd (snd (generate_content generativeai_genai stub_client ''empty'' None None
                     empty_world)))
       = [ModelGenerate ''empty'' None None, RaiseForStatus]"
  by (simp add: generate_content_result generate_content_world generate_content_try_trace
        generate_content_try_def generate_content_except_def raise_from_def new_events_def
        emit_def generativeai_genai_def stub_genai_def stub_client_def empty_world_def
        no_raise_for_status_def is_GoogleAPIError_def is_Exception_def Let_def)

section \<open>Exceptions of a generation call\<close>

text \<open>
  C3, as stated, fails: the \<^verbatim>\<open>except Exception\<close> clause does not catch an exception
  outside the \<^verbatim>\<open>Exception\<close> hierarchy. A \<^verbatim>\<open>KeyboardInterrupt\<close> raised inside the
  library's call reaches the caller as it is, and it is not a \<^verbatim>\<open>GeminiAPIError\<close>.
\<close>

theorem generate_content_interrupt_counterexample:
  "model_generate_content stub_genai (model stub_client) ''interrupt'' None None
     = Inl keyboard_interrupt
   \<and> fst (generate_content stub_genai stub_client ''interrupt'' None None empty_world)
     = Inl keyboard_interrupt
   \<and> \<not> is_GeminiAPIError keyboard_interrupt"
  by (simp add: generate_content_result generate_content_try_def generate_content_except_def
        stub_genai_def stub_client_def keyboard_interrupt_def is_GeminiAPIError_def
        is_GoogleAPIError_def is_Exception_def Let_def)

text \<open>
  C3, amended. Every exception of the \<^verbatim>\<open>Exception\<close> hierarchy that the library raises
  inside a generation call (from the call itself, from the status check or from reading
  the text) is replaced by a \<^verbatim>\<open>GeminiAPIError\<close> whose cause is that exception; the
  message says whether it was a \<^verbatim>\<open>GoogleAPIError\<close>.
\<close>

theorem generate_content_wraps_exception:
  assumes "model_generate_content lib (model self) p g s = Inl e
     \<or> (\<exists>r. model_generate_content lib (model self) p g s = Inr r
            \<and> (response_raise_for_status lib r = Some e
               \<or> (response_raise_for_status lib r = None \<and> response_text lib r = Inl e)))"
    and "is_Exception e"
  shows "fst (generate_content lib self p g s w) =
           Inl (PyExc GeminiAPIError
                  ((if is_GoogleAPIError e then ''Gemini API error: ''
                    else ''Unexpected error during content generation: '') @ exc_str e)
                  (Some e))"
proof -
  have "fst (generate_content_try lib self p g s w) = Inl e"
    using assms(1) by (rule generate_content_try_raises)
  then show ?thesis
    using assms(2)
    by (simp add: generate_content_result generate_content_except_def raise_from_def)
qed

theorem generate_content_wraps_exception_witness:
  "fst (generate_content stub_genai stub_client ''quota'' None None empty_world)
     = Inl (PyExc GeminiAPIError ''Gemini API error: quota exceeded'' (Some quota_error))
   \<and> fst (generate_content stub_genai stub_client ''crash'' None None empty_world)
     = Inl (PyExc GeminiAPIError ''Unexpected error during content generation: no attribute''
              (Some attribute_error))"
proof -
  have q1: "model_generate_content stub_genai (model stub_client) ''quota'' None None
              = Inl quota_error
     \<or> (\<exists>r. model_generate_content stub_genai (model stub_client) ''quota'' None None = Inr r
            \<and> (response_raise_for_status stub_genai r = Some quota_error
               \<or> (response_raise_for_status stub_genai r = None
                  \<and> response_text stub_genai r = Inl quota_error)))"
    by (simp add: stub_genai_def)
  have q2: "is_Exception quota_error"
    by (simp add: is_Exception_def quota_error_def)
  have c1: "model_generate_content stub_genai (model stub_client) ''crash'' None None
              = Inl attribute_error
     \<or> (\<exists>r. model_generate_content stub_genai (model stub_client) ''crash'' None None = Inr r
            \<and> (response_raise_for_status stub_genai r = Some attribute_error
               \<or> (response_raise_for_status stub_genai r = None
                  \<and> response_text stub_genai r = Inl attribute_error)))"
    by (simp add: stub_genai_def)
  have c2: "is_Exception attribute_error"
    by (simp add: is_Exception_def attribute_error_def)
  show ?thesis
    using generate_content_wraps_exception [OF q1 q2, of empty_world]
          generate_content_wraps_exception [OF c1 c2, of empty_world]
    by (simp add: is_GoogleAPIError_def quota_error_def attribute_error_def)
qed

section \<open>Construction\<close>

text \<open>
  C4. For a credential that is \<^verbatim>\<open>None\<close> or the empty string, construction raises the
  \<^verbatim>\<open>ValueError\<close> of the credential check and leaves the world, the process environment
  included, exactly as it was.
\<close>

theorem init_rejects_empty_credential:
  assumes "key = None \<or> key = Some []"
  shows "init lib key name w
           = (Inl (PyExc ValueError ''API key cannot be empty or None.'' None), w)"
  using assms by (auto simp add: init_def)

theorem init_rejects_empty_credential_witness:
  "init stub_genai None default_model_name empty_world
     = (Inl (PyExc ValueError ''API key cannot be empty or None.'' None), empty_world)
   \<and> init stub_genai (Some []) default_model_name empty_world
     = (Inl (PyExc ValueError ''API key cannot be empty or None.'' None), empty_world)"
proof -
  have n: "(None::string option) = None \<or> None = Some ([]::string)"
    by simp
  have e: "Some ([]::string) = None \<or> Some [] = Some ([]::string)"
    by simp
  show ?thesis
    using init_rejects_empty_credential [OF n, of stub_genai default_model_name empty_world]
          init_rejects_empty_credential [OF e, of stub_genai default_model_name empty_world]
    by simp
qed







section \<open>The facade as a whole\<close>




section \<open>Order of the status check and the text\<close>

text \<open>
  C7. In every generation call the effects of the call extend the trace; the text of the
  response is read only after \<^verbatim>\<open>raise_for_status\<close> has been called on it; and when
  \<^verbatim>\<open>raise_for_status\<close> raises, the call raises too (the exception wrapped, or the
  exception itself when it is outside the \<^verbatim>\<open>Exception\<close> hierarchy) and the text is never
  read.
\<close>

theorem status_checked_before_text:
  "trace (snd (snd (generate_content lib self p g s w)))
     = trace w @ new_events w (snd (snd (generate_content lib self p g s w)))
   \<and> (ReadText \<in> set (new_events w (snd (snd (generate_content lib self p g s w)))) \<longrightarrow>
        RaiseForStatus \<in> set (takeWhile (\<lambda>ev. ev \<noteq> ReadText)
                                 (new_events w (snd (snd (generate_content lib self p g s w))))))
   \<and> (model_generate_content lib (model self) p g s = Inr r
        \<and> response_raise_for_status lib r = Some e \<longrightarrow>
        fst (generate_content lib self p g s w) = Inl (generate_content_except e)
        \<and> (generate_content_except e = e \<or> exc_cause (generate_content_except e) = Some e)
        \<and> ReadText \<notin> set (new_events w (snd (snd (generate_content lib self p g s w)))))"
proof (intro conjI impI)
  show "trace (snd (snd (generate_content lib self p g s w)))
          = trace w @ new_events w (snd (snd (generate_content lib self p g s w)))"
    by (simp add: new_events_def generate_content_world generate_content_try_trace)
next
  assume "ReadText \<in> set (new_events w (snd (snd (generate_content lib self p g s w))))"
  then show "RaiseForStatus \<in> set (takeWhile (\<lambda>ev. ev \<noteq> ReadText)
               (new_events w (snd (snd (generate_content lib self p g s w)))))"
    by (cases "model_generate_content lib (model self) p g s";
        cases "response_raise_for_status lib (projr (model_generate_content lib (model self) p g s))")
       (simp_all add: new_events_def generate_content_world generate_content_try_trace)
next
  assume h: "model_generate_content lib (model self) p g s = Inr r
               \<and> response_raise_for_status lib r = Some e"
  then have "fst (generate_content_try lib self p g s w) = Inl e"
    by (intro generate_content_try_raises) auto
  then show "fst (generate_content lib self p g s w) = Inl (generate_content_except e)"
    by (simp add: generate_content_result)
  show "generate_content_except e = e \<or> exc_cause (generate_content_except e) = Some e"
    by (simp add: generate_content_except_def raise_from_def)
  show "ReadText \<notin> set (new_events w (snd (snd (generate_content lib self p g s w))))"
    using h by (simp add: new_events_def generate_content_world generate_content_try_trace)
qed

theorem status_checked_before_text_witness:
  "new_events empty_world
     (snd (snd (generate_content stub_genai stub_client ''hi'' None None empty_world)))
     = [ModelGenerate ''hi'' None None, RaiseForStatus, ReadText, ReadText]
   \<and> fst (generate_content bad_status_genai stub_client ''hi'' None None empty_world)
     = Inl (PyExc GeminiAPIError ''Gemini API error: quota exceeded'' (Some quota_error))
   \<and> new_events empty_world
       (snd (snd (generate_content bad_status_genai stub_client ''hi'' None None empty_world)))
     = [ModelGenerate ''hi'' None None, RaiseForStatus]"
proof -
  have t: "trace empty_world = []"
    by (simp add: empty_world_def)
  have g: "new_events empty_world
     (snd (snd (generate_content stub_genai stub_client ''hi'' None None empty_world)))
     = [ModelGenerate ''hi'' None None, RaiseForStatus, ReadText, ReadText]"
    by (simp add: new_events_def generate_content_world generate_content_try_trace t
          stub_genai_def stub_client_def)
  have b: "new_events empty_world
       (snd (snd (generate_content bad_status_genai stub_client ''hi'' None None empty_world)))
     = [ModelGenerate ''hi'' None None, RaiseForStatus]"
    by (simp add: new_events_def generate_content_world generate_content_try_trace t
          bad_status_genai_def stub_genai_def stub_client_def)
  have h: "model_generate_content bad_status_genai (model stub_client) ''hi'' None None
             = Inr (Some ''echo hi'')
           \<and> response_raise_for_status bad_status_genai (Some ''echo hi'') = Some quota_error"
    by (simp add: bad_status_genai_def stub_genai_def)
  have x: "generate_content_except quota_error
             = PyExc GeminiAPIError ''Gemini API error: quota exceeded'' (Some quota_error)"
    by (simp add: generate_content_except_def is_GoogleAPIError_def raise_from_def
          quota_error_def)
  show ?thesis
    using g b h
      status_checked_before_text
        [of stub_genai stub_client "''hi''" None None empty_world "Some ''echo hi''" quota_error]
      status_checked_before_text
        [of bad_status_genai stub_client "''hi''" None None empty_world "Some ''echo hi''"
            quota_error]
    by (simp add: x)
qed

section \<open>Repeated calls\<close>

text \<open>
  C8. Two generation calls in a row with the same arguments, against the same library
  (a function of its arguments), give the same result, and after each of them the client
  is the client before the first: neither the credential nor the model handle changes.
  The process environment does not change either.
\<close>

theorem generate_content_idempotent:
  "(case generate_content lib self p g s w of
      (result1, self1, w1) \<Rightarrow>
        (case generate_content lib self1 p g s w1 of
           (result2, self2, w2) \<Rightarrow>
             result1 = result2 \<and> self1 = self \<and> self2 = self
             \<and> api_key self2 = api_key self \<and> model self2 = model self
             \<and> environ w2 = environ w))"
proof -
  have r: "fst (generate_content_try lib self p g s w') = fst (generate_content_try lib self p g s w)"
    for w'
    by (simp add: generate_content_try_def read_text_def Let_def
          split: sum.splits option.splits)
  have e: "environ (snd (snd (generate_content lib self p g s w'))) = environ w'" for w'
    by (simp add: generate_content_world generate_content_try_environ)
  obtain result1 self1 w1 where c1: "generate_content lib self p g s w = (result1, self1, w1)"
    by (cases "generate_content lib self p g s w") auto
  obtain result2 self2 w2 where c2: "generate_content lib self p g s w1 = (result2, self2, w2)"
    by (cases "generate_content lib self p g s w1") auto
  have s1: "self1 = self"
    using generate_content_self [of lib self p g s w] by (simp add: c1)
  have s2: "self2 = self"
    using generate_content_self [of lib self p g s w1] by (simp add: c2)
  have "result1 = fst (generate_content lib self p g s w)"
    by (simp add: c1)
  moreover have "result2 = fst (generate_content lib self p g s w1)"
    by (simp add: c2)
  ultimately have res: "result1 = result2"
    by (simp add: generate_content_result r [of w1])
  have "environ w1 = environ w"
    using e [of w] by (simp add: c1)
  moreover have "environ w2 = environ w1"
    using e [of w1] by (simp add: c2)
  ultimately have env: "environ w2 = environ w"
    by simp
  show ?thesis
    using res s1 s2 env by (simp add: c1 c2)
qed

theorem generate_content_idempotent_witness:
  "generate_content stub_genai stub_client ''hi'' None None empty_world
     = (Inr (Some ''echo hi''), stub_client,
        \<lparr>environ = Map.empty,
         trace = [ModelGenerate ''hi'' None None, RaiseForStatus, ReadText, ReadText]\<rparr>)
   \<and> fst (generate_content stub_genai stub_client ''hi'' None None
            \<lparr>environ = Map.empty,
             trace = [ModelGenerate ''hi'' None None, RaiseForStatus, ReadText, ReadText]\<rparr>)
     = Inr (Some ''echo hi'')"
proof -
  have c: "generate_content stub_genai stub_client ''hi'' None None empty_world
     = (Inr (Some ''echo hi''), stub_client,
        \<lparr>environ = Map.empty,
         trace = [ModelGenerate ''hi'' None None, RaiseForStatus, ReadText, ReadText]\<rparr>)"
    by (simp add: generate_content_def generate_content_try_def read_text_def emit_def Let_def
          stub_genai_def stub_client_def empty_world_def)
  show ?thesis
    using generate_content_idempotent
            [where lib = stub_genai and self = stub_client and p = "''hi''" and g = None
               and s = None and w = empty_world]
    by (simp add: c split: prod.splits)
qed

section \<open>The script without a credential\<close>

text \<open>
  What \<^verbatim>\<open>main\<close> does when \<^verbatim>\<open>GEMINI_API_KEY\<close> is absent: it prints the diagnostic and
  returns. No client is constructed, the library is never called, the environment is
  unchanged, and no exception leaves \<^verbatim>\<open>main\<close>.
\<close>

lemma main_without_key:
  assumes "environ w ''GEMINI_API_KEY'' = None"
  shows "main lib w = (None, w\<lparr>trace := trace w @ [Print missing_key_message]\<rparr>)"
  using assms by (simp add: main_def emit_def Let_def)

text \<open>
  C9. Lines 106 to 110 are written to report the missing credential, but the file as it
  stands never gets there. Run with \<^verbatim>\<open>GEMINI_API_KEY\<close> absent, the script is rejected at
  line 141 with \<^verbatim>\<open>SyntaxError\<close>: the world is as before, nothing is printed on standard
  output, so no configuration diagnostic is reported, and the exit status 1 is that of the
  syntax error.
\<close>

theorem script_without_key_is_rejected:
  "environ empty_world ''GEMINI_API_KEY'' = None
   \<and> run_script stub_genai empty_world = (SyntaxErrorAt 141, empty_world)
   \<and> exit_status (fst (run_script stub_genai empty_world)) = Some 1
   \<and> Print missing_key_message \<notin> set (trace (snd (run_script stub_genai empty_world)))"
  by (simp add: run_script_def line_141_def exit_status_def empty_world_def)

end
